theory Spec2Isabelle
  imports Complex_Main
begin

section \<open>Data model of the voxel program\<close>

text \<open>
  The program keeps no map from coordinates to blocks. Every block is a \<open>Voxel\<close> object
  that registers itself in the engine's scene when it is constructed, and leaves the scene
  when \<open>destroy\<close> is called on it. The scene is therefore modelled as the list of live
  voxels in creation order; a voxel carries an identity (the object identity of Python), its
  \<open>block_type\<close> and its \<open>position\<close>. Positions are the engine's \<open>Vec3\<close>; its
  floating-point components are modelled as reals.
\<close>

datatype error = ValueError string | KeyError string

type_synonym vec3 = "real \<times> real \<times> real"

fun vec_x :: "vec3 \<Rightarrow> real" where "vec_x (x, y, z) = x"
fun vec_y :: "vec3 \<Rightarrow> real" where "vec_y (x, y, z) = y"
fun vec_z :: "vec3 \<Rightarrow> real" where "vec_z (x, y, z) = z"

fun vec_add :: "vec3 \<Rightarrow> vec3 \<Rightarrow> vec3" where
  "vec_add (a, b, c) (x, y, z) = (a + x, b + y, c + z)"

type_synonym rgb = "nat \<times> nat \<times> nat"

definition BLOCK_TYPES :: "(string \<times> rgb) list" where
  "BLOCK_TYPES =
     [(''grass'', (34, 177, 76)),
      (''dirt'', (139, 69, 19)),
      (''stone'', (128, 128, 128)),
      (''bedrock'', (0, 0, 0)),
      (''wood'', (160, 82, 45))]"

record voxel =
  ident :: nat
  block_type :: string
  position :: vec3

record scene =
  entities :: "voxel list"
  next_ident :: nat

definition empty_scene :: scene where
  "empty_scene = \<lparr>entities = [], next_ident = 0\<rparr>"

text \<open>
  \<open>Voxel.__init__\<close>: raises \<open>ValueError\<close> for a block type that is not a key of
  \<open>BLOCK_TYPES\<close>; otherwise the new object joins the scene. Nothing is looked up or
  removed at the position: a voxel already standing there stays.
\<close>

definition Voxel_init :: "string \<Rightarrow> vec3 \<Rightarrow> scene \<Rightarrow> error + scene" where
  "Voxel_init bt pos sc =
     (if map_of BLOCK_TYPES bt = None then Inl (ValueError (''Unknown block type: '' @ bt))
      else Inr \<lparr>entities = entities sc @ [\<lparr>ident = next_ident sc, block_type = bt, position = pos\<rparr>],
               next_ident = Suc (next_ident sc)\<rparr>)"

text \<open>The engine's \<open>destroy(entity)\<close>: the object leaves the scene; every other object stays.\<close>

definition destroy :: "voxel \<Rightarrow> scene \<Rightarrow> scene" where
  "destroy self sc = sc\<lparr>entities := filter (\<lambda>v. ident v \<noteq> ident self) (entities sc)\<rparr>"

text \<open>
  Observations used to state properties (they are not functions of the program): the block
  types of the voxels standing at a position, in creation order, and the scene's content
  without the identities.
\<close>

definition blocks_at :: "scene \<Rightarrow> vec3 \<Rightarrow> string list" where
  "blocks_at sc c = map block_type (filter (\<lambda>v. position v = c) (entities sc))"

definition content :: "scene \<Rightarrow> (string \<times> vec3) list" where
  "content sc = map (\<lambda>v. (block_type v, position v)) (entities sc)"

definition well_formed :: "scene \<Rightarrow> bool" where
  "well_formed sc \<longleftrightarrow>
     distinct (map ident (entities sc)) \<and> list_all (\<lambda>v. ident v < next_ident sc) (entities sc)"

section \<open>World generation\<close>

text \<open>Running a loop body over a list, stopping at the first exception.\<close>

fun for_each :: "('a \<Rightarrow> scene \<Rightarrow> error + scene) \<Rightarrow> 'a list \<Rightarrow> scene \<Rightarrow> error + scene" where
  "for_each body [] sc = Inr sc"
| "for_each body (a # as) sc =
     (case body a sc of Inl e \<Rightarrow> Inl e | Inr sc' \<Rightarrow> for_each body as sc')"

text \<open>Python's \<open>range(start, stop, -1)\<close>: \<open>start, start - 1, ...\<close> while above \<open>stop\<close>.\<close>

function range_down :: "int \<Rightarrow> int \<Rightarrow> int list" where
  "range_down start stop = (if stop < start then start # range_down (start - 1) stop else [])"
  by pat_completeness auto
termination
  by (relation "measure (\<lambda>(start, stop). nat (start - stop))") auto

declare range_down.simps [simp del]

text \<open>
  The body of the two nested loops, for one column. The noise object is a parameter (the
  Perlin noise library is not part of the program); it is called with the list
  \<open>[x * 0.03, z * 0.03]\<close>.
\<close>

definition column_height :: "(real list \<Rightarrow> real) \<Rightarrow> int \<Rightarrow> nat \<Rightarrow> nat \<Rightarrow> int" where
  "column_height noise world_height x z =
     \<lfloor>noise [real x * (3 / 100), real z * (3 / 100)] * of_int world_height\<rfloor>"

definition generate_column ::
  "(real list \<Rightarrow> real) \<Rightarrow> int \<Rightarrow> nat \<Rightarrow> nat \<Rightarrow> scene \<Rightarrow> error + scene" where
  "generate_column noise world_height z x sc =
     (let y = column_height noise world_height x z in
      (case Voxel_init ''grass'' (real x, of_int y, real z) sc of Inl e \<Rightarrow> Inl e | Inr sc1 \<Rightarrow>
      (case Voxel_init ''dirt'' (real x, of_int (y - 1), real z) sc1 of Inl e \<Rightarrow> Inl e | Inr sc2 \<Rightarrow>
      (case Voxel_init ''dirt'' (real x, of_int (y - 2), real z) sc2 of Inl e \<Rightarrow> Inl e | Inr sc3 \<Rightarrow>
      (case for_each (\<lambda>depth. Voxel_init ''stone'' (real x, of_int depth, real z))
              (range_down (y - 3) (- 1)) sc3 of Inl e \<Rightarrow> Inl e | Inr sc4 \<Rightarrow>
       Voxel_init ''bedrock'' (real x, - 1, real z) sc4)))))"

definition generate :: "(real list \<Rightarrow> real) \<Rightarrow> nat \<Rightarrow> int \<Rightarrow> scene \<Rightarrow> error + scene" where
  "generate noise world_size world_height sc =
     for_each (\<lambda>z. for_each (generate_column noise world_height z) [0..<world_size])
       [0..<world_size] sc"

text \<open>The constants of the program.\<close>

definition world_size :: nat where "world_size = 24"
definition world_height :: int where "world_height = 8"

section \<open>Placing and destroying: \<open>Voxel.input\<close>\<close>

text \<open>
  Python's \<open>round(x)\<close> on a float: the nearest integer, a tie going to the even one.
\<close>

definition py_round :: "real \<Rightarrow> int" where
  "py_round r =
     (let f = \<lfloor>r\<rfloor>; d = r - of_int f in
      if d < 1 / 2 then f else if 1 / 2 < d then f + 1 else if even f then f else f + 1)"

text \<open>
  The engine calls \<open>input(key)\<close> of every voxel for every key event. \<open>self.hovered\<close>
  and \<open>mouse.normal\<close> are maintained by the engine, \<open>player\<close> is the position of the
  first-person controller and \<open>current_block_type\<close> the module's global; all four are
  read only, so they are arguments. The two \<open>if\<close> statements on the key run one after the
  other, as written.
\<close>

definition Voxel_input ::
  "voxel \<Rightarrow> bool \<Rightarrow> string \<Rightarrow> vec3 \<Rightarrow> vec3 \<Rightarrow> string \<Rightarrow> scene \<Rightarrow> error + scene" where
  "Voxel_input self hovered key mouse_normal player current_block_type sc =
     (if hovered then
        (case (if key = ''right mouse down'' then
                 (let new_position = vec_add (position self) mouse_normal in
                  if \<not> (vec_x new_position = of_int (py_round (vec_x player)) \<and>
                         vec_y new_position = of_int (py_round (vec_y player)) \<and>
                         vec_z new_position = of_int (py_round (vec_z player)))
                  then Voxel_init current_block_type new_position sc
                  else Inr sc)
               else Inr sc) of
           Inl e \<Rightarrow> Inl e
         | Inr sc1 \<Rightarrow>
             (if key = ''left mouse down'' then
                (if block_type self \<noteq> ''bedrock'' then Inr (destroy self sc1) else Inr sc1)
              else Inr sc1))
      else Inr sc)"

section \<open>Global input handling\<close>

text \<open>
  The module's mutable globals: the selected block type, the text of the label that shows
  it, and the position of the player. Key names are ASCII strings; on such a string
  \<open>str.isdigit\<close> holds when it is non-empty and made of the characters 0 to 9, \<open>int\<close>
  then is its decimal value, and \<open>str.capitalize\<close> turns the first letter to upper and
  the others to lower case.
\<close>

record session =
  current_block_type :: string
  current_block_text :: string
  player_position :: vec3

definition char_isdigit :: "char \<Rightarrow> bool" where
  "char_isdigit c \<longleftrightarrow> 48 \<le> (of_char c :: nat) \<and> (of_char c :: nat) \<le> 57"

definition isdigit :: "string \<Rightarrow> bool" where
  "isdigit s \<longleftrightarrow> s \<noteq> [] \<and> list_all char_isdigit s"

definition py_int :: "string \<Rightarrow> int" where
  "py_int s = foldl (\<lambda>a c. 10 * a + (int (of_char c) - 48)) 0 s"

definition char_upper :: "char \<Rightarrow> char" where
  "char_upper c =
     (if 97 \<le> (of_char c :: nat) \<and> (of_char c :: nat) \<le> 122 then char_of (of_char c - (32::nat)) else c)"

definition char_lower :: "char \<Rightarrow> char" where
  "char_lower c =
     (if 65 \<le> (of_char c :: nat) \<and> (of_char c :: nat) \<le> 90 then char_of (of_char c + (32::nat)) else c)"

definition capitalize :: "string \<Rightarrow> string" where
  "capitalize s = (case s of [] \<Rightarrow> [] | c # cs \<Rightarrow> char_upper c # map char_lower cs)"

definition block_map :: "(string \<times> string) list" where
  "block_map = [(''1'', ''grass''), (''2'', ''dirt''), (''3'', ''stone''), (''4'', ''wood'')]"

definition respawn_position :: vec3 where
  "respawn_position = (real world_size / 2, of_int (world_height + 5), real world_size / 2)"

definition initial_session :: session where
  "initial_session =
     \<lparr>current_block_type = ''grass'',
      current_block_text = ''Selected: '' @ capitalize ''grass'',
      player_position = respawn_position\<rparr>"

text \<open>The first statement of \<open>input\<close>: block selection. \<open>block_map[key]\<close> raises
  \<open>KeyError\<close> for a key that is not one of its four.\<close>

definition select_block :: "string \<Rightarrow> session \<Rightarrow> error + session" where
  "select_block key s =
     (if isdigit key \<and> 1 \<le> py_int key \<and> py_int key < 5 then
        (case map_of block_map key of
           None \<Rightarrow> Inl (KeyError key)
         | Some bt \<Rightarrow>
             Inr (s\<lparr>current_block_type := bt,
                     current_block_text := ''Selected: '' @ capitalize bt\<rparr>))
      else Inr s)"

text \<open>The second statement of \<open>input\<close>: the reset of a player that fell out of the world.\<close>

definition fall_reset :: "session \<Rightarrow> session" where
  "fall_reset s =
     (if vec_y (player_position s) < - 10 then s\<lparr>player_position := respawn_position\<rparr> else s)"

definition input :: "string \<Rightarrow> session \<Rightarrow> error + session" where
  "input key s = (case select_block key s of Inl e \<Rightarrow> Inl e | Inr s1 \<Rightarrow> Inr (fall_reset s1))"

text \<open>
  What the program runs for an event of the engine. A key event calls the module's
  \<open>input\<close>. A frame tick would call a module-level \<open>update\<close>; the program defines
  none, so on a tick only the engine's own controller moves the player (\<open>physics\<close>, a
  parameter) and no statement of the program runs.
\<close>

datatype event = KeyPressed string | FrameTick

definition on_event :: "(vec3 \<Rightarrow> vec3) \<Rightarrow> event \<Rightarrow> session \<Rightarrow> error + session" where
  "on_event physics ev s =
     (case ev of
        KeyPressed key \<Rightarrow> input key s
      | FrameTick \<Rightarrow> Inr (s\<lparr>player_position := physics (player_position s)\<rparr>))"

section \<open>Auxiliary notions for the proofs\<close>

text \<open>The scene after one more voxel, and after a list of them, has joined it.\<close>

definition with_voxel :: "string \<times> vec3 \<Rightarrow> scene \<Rightarrow> scene" where
  "with_voxel b sc =
     \<lparr>entities = entities sc @ [\<lparr>ident = next_ident sc, block_type = fst b, position = snd b\<rparr>],
      next_ident = Suc (next_ident sc)\<rparr>"

fun with_voxels :: "(string \<times> vec3) list \<Rightarrow> scene \<Rightarrow> scene" where
  "with_voxels [] sc = sc"
| "with_voxels (b # bs) sc = with_voxels bs (with_voxel b sc)"

definition registered :: "string \<Rightarrow> bool" where
  "registered bt \<longleftrightarrow> map_of BLOCK_TYPES bt \<noteq> None"

text \<open>The voxels one column receives, in the order of the constructor calls.\<close>

definition column_blocks :: "(real list \<Rightarrow> real) \<Rightarrow> int \<Rightarrow> nat \<Rightarrow> nat \<Rightarrow> (string \<times> vec3) list" where
  "column_blocks noise wh z x =
     (let y = column_height noise wh x z in
      [(''grass'', (real x, of_int y, real z)),
       (''dirt'', (real x, of_int (y - 1), real z)),
       (''dirt'', (real x, of_int (y - 2), real z))]
      @ map (\<lambda>depth. (''stone'', (real x, of_int depth, real z))) (range_down (y - 3) (- 1))
      @ [(''bedrock'', (real x, - 1, real z))])"

text \<open>The selection of the blocks of one column, and occupancy by at most one voxel.\<close>

definition in_column :: "nat \<Rightarrow> nat \<Rightarrow> string \<times> vec3 \<Rightarrow> bool" where
  "in_column x z b \<longleftrightarrow> vec_x (snd b) = real x \<and> vec_z (snd b) = real z"

text \<open>The cell of the player: the position rounded on each axis.\<close>

definition actor_cell :: "vec3 \<Rightarrow> vec3" where
  "actor_cell player =
     (of_int (py_round (vec_x player)), of_int (py_round (vec_y player)),
      of_int (py_round (vec_z player)))"

definition unique_occupancy :: "scene \<Rightarrow> bool" where
  "unique_occupancy sc \<longleftrightarrow> distinct (map position (entities sc))"

text \<open>A noise source that is 0 everywhere, and the scene of the one-column scenario.\<close>

definition flat_noise :: "real list \<Rightarrow> real" where
  "flat_noise p = 0"

definition flat_scene :: scene where
  "flat_scene =
     \<lparr>entities =
        [\<lparr>ident = 0, block_type = ''grass'', position = (0, 0, 0)\<rparr>,
         \<lparr>ident = 1, block_type = ''dirt'', position = (0, - 1, 0)\<rparr>,
         \<lparr>ident = 2, block_type = ''dirt'', position = (0, - 2, 0)\<rparr>,
         \<lparr>ident = 3, block_type = ''bedrock'', position = (0, - 1, 0)\<rparr>],
      next_ident = 4\<rparr>"

text \<open>A scene of two neighbouring voxels, and a session whose player has fallen.\<close>

definition grass_voxel :: voxel where
  "grass_voxel = \<lparr>ident = 0, block_type = ''grass'', position = (0, 0, 0)\<rparr>"

definition stone_voxel :: voxel where
  "stone_voxel = \<lparr>ident = 1, block_type = ''stone'', position = (1, 0, 0)\<rparr>"

definition two_block_scene :: scene where
  "two_block_scene = \<lparr>entities = [grass_voxel, stone_voxel], next_ident = 2\<rparr>"

definition fallen_session :: session where
  "fallen_session = initial_session\<lparr>player_position := (0, - 20, 0)\<rparr>"

text \<open>A scene in which a bedrock voxel has its cell to itself.\<close>

definition bedrock_voxel :: voxel where
  "bedrock_voxel = \<lparr>ident = 1, block_type = ''bedrock'', position = (0, - 1, 0)\<rparr>"

definition bedrock_scene :: scene where
  "bedrock_scene = \<lparr>entities = [grass_voxel, bedrock_voxel], next_ident = 2\<rparr>"

section \<open>Scenes built by the constructor\<close>

lemma registered_names [simp]:
  "registered ''grass''" "registered ''dirt''" "registered ''stone''"
  "registered ''bedrock''" "registered ''wood''"
  by (simp_all add: registered_def BLOCK_TYPES_def)

lemma Voxel_init_registered:
  "registered bt \<Longrightarrow> Voxel_init bt pos sc = Inr (with_voxel (bt, pos) sc)"
  by (simp add: Voxel_init_def registered_def with_voxel_def)

lemma Voxel_init_unregistered:
  "\<not> registered bt \<Longrightarrow> Voxel_init bt pos sc = Inl (ValueError (''Unknown block type: '' @ bt))"
  by (simp add: Voxel_init_def registered_def)

lemma with_voxels_append: "with_voxels (as @ bs) sc = with_voxels bs (with_voxels as sc)"
  by (induction as arbitrary: sc) simp_all

lemma content_with_voxel: "content (with_voxel b sc) = content sc @ [b]"
  by (simp add: content_def with_voxel_def)

lemma content_with_voxels: "content (with_voxels bs sc) = content sc @ bs"
  by (induction bs arbitrary: sc) (simp_all add: content_with_voxel)

lemma for_each_Voxel_init:
  "registered bt \<Longrightarrow>
   for_each (\<lambda>a. Voxel_init bt (f a)) as sc = Inr (with_voxels (map (\<lambda>a. (bt, f a)) as) sc)"
  by (induction as arbitrary: sc) (simp_all add: Voxel_init_registered)

lemma generate_column_eq:
  "generate_column noise wh z x sc = Inr (with_voxels (column_blocks noise wh z x) sc)"
  by (simp add: generate_column_def column_blocks_def Let_def Voxel_init_registered
      for_each_Voxel_init with_voxels_append)

lemma for_each_pure:
  "(\<And>a sc. body a sc = Inr (with_voxels (f a) sc)) \<Longrightarrow>
   for_each body as sc = Inr (with_voxels (concat (map f as)) sc)"
  by (induction as arbitrary: sc) (simp_all add: with_voxels_append)

lemma generate_eq:
  "generate noise ws wh sc =
     Inr (with_voxels (concat (map (\<lambda>z. concat (map (column_blocks noise wh z) [0..<ws])) [0..<ws])) sc)"
  unfolding generate_def
  by (rule for_each_pure) (rule for_each_pure, rule generate_column_eq)

lemma range_down_upto: "range_down start stop = rev [stop + 1..start]"
proof (induction start stop rule: range_down.induct)
  case (1 start stop)
  show ?case
  proof (cases "stop < start")
    case True
    then have "[stop + 1..start] = [stop + 1..start - 1] @ [start]"
      by (simp add: upto_rec2)
    with True 1 show ?thesis by (simp add: range_down.simps [of start stop])
  next
    case False
    then show ?thesis by (simp add: range_down.simps [of start stop])
  qed
qed

lemma concat_no_index: "concat (map (\<lambda>j. []) (js :: nat list)) = []"
  by (induction js) simp_all

lemma concat_single_index:
  "i < n \<Longrightarrow> concat (map (\<lambda>j. if j = i then a else []) [0..<n]) = a"
proof (induction n)
  case 0
  then show ?case by simp
next
  case (Suc n)
  show ?case
  proof (cases "i = n")
    case True
    have "concat (map (\<lambda>j. if j = n then a else []) [0..<n]) = []"
      by (induction n) auto
    with True show ?thesis by simp
  next
    case False
    with Suc show ?thesis by simp
  qed
qed

lemma filter_in_column_blocks:
  "filter (in_column x z) (column_blocks noise wh z' x') =
     (if x' = x \<and> z' = z then column_blocks noise wh z x else [])"
  by (auto simp: column_blocks_def in_column_def Let_def filter_empty_conv)

lemma filter_in_column_generated:
  assumes "x < ws" "z < ws"
  shows "filter (in_column x z)
           (concat (map (\<lambda>z'. concat (map (column_blocks noise wh z') [0..<ws])) [0..<ws]))
         = column_blocks noise wh z x"
proof -
  have inner: "concat (map (\<lambda>x'. filter (in_column x z) (column_blocks noise wh z' x')) [0..<ws])
        = (if z' = z then column_blocks noise wh z x else [])" for z'
  proof (cases "z' = z")
    case True
    then show ?thesis
      using concat_single_index [OF assms(1), of "column_blocks noise wh z x"]
      by (simp add: filter_in_column_blocks)
  next
    case False
    then show ?thesis by (simp add: filter_in_column_blocks concat_no_index)
  qed
  show ?thesis
    using concat_single_index [OF assms(2), of "column_blocks noise wh z x"]
    by (simp add: filter_concat comp_def inner)
qed

subsection \<open>Positions of the generated voxels\<close>

lemma positions_with_voxel:
  "map position (entities (with_voxel b sc)) = map position (entities sc) @ [snd b]"
  by (simp add: with_voxel_def)

lemma positions_content: "map position (entities sc) = map snd (content sc)"
  by (simp add: content_def comp_def)

lemma distinct_concat_upt:
  assumes "\<And>i. i < n \<Longrightarrow> distinct (f i)"
    and "\<And>i j. i < n \<Longrightarrow> j < n \<Longrightarrow> i \<noteq> j \<Longrightarrow> set (f i) \<inter> set (f j) = {}"
  shows "distinct (concat (map f [0..<n]))"
  using assms
proof (induction n)
  case 0
  then show ?case by simp
next
  case (Suc n)
  have "distinct (concat (map f [0..<n]))"
    using Suc by simp
  moreover have "distinct (f n)"
    using Suc.prems(1) by simp
  moreover have "set (concat (map f [0..<n])) \<inter> set (f n) = {}"
  proof -
    have "set (f i) \<inter> set (f n) = {}" if "i < n" for i
      using Suc.prems(2) [of i n] that by simp
    then show ?thesis by (fastforce simp: disjoint_iff)
  qed
  ultimately show ?case by simp
qed

lemma column_positions_distinct:
  assumes "column_height noise wh x z \<notin> {- 1, 0, 1}"
  shows "distinct (map snd (column_blocks noise wh z x))"
proof -
  have inj: "inj_on (\<lambda>d. (real x, real_of_int d, real z)) A" for A
    by (simp add: inj_on_def)
  show ?thesis
    using assms
    by (auto simp: column_blocks_def Let_def range_down_upto distinct_map comp_def inj
        intro: inj_onI)
qed

lemma column_positions_x:
  "p \<in> set (map snd (column_blocks noise wh z x)) \<Longrightarrow> vec_x p = real x \<and> vec_z p = real z"
  by (auto simp: column_blocks_def Let_def)

lemma row_positions_z:
  assumes "p \<in> set (map snd (concat (map (column_blocks noise wh z) xs)))"
  shows "vec_z p = real z"
proof -
  from assms obtain x where "p \<in> set (map snd (column_blocks noise wh z x))"
    by auto
  then show ?thesis by (simp add: column_positions_x)
qed

lemma generated_positions_distinct:
  assumes "\<And>x z. x < ws \<Longrightarrow> z < ws \<Longrightarrow> column_height noise wh x z \<notin> {- 1, 0, 1}"
  shows "distinct (map snd
           (concat (map (\<lambda>z. concat (map (column_blocks noise wh z) [0..<ws])) [0..<ws])))"
proof -
  have row: "distinct (concat (map (\<lambda>x. map snd (column_blocks noise wh z x)) [0..<ws]))"
    if "z < ws" for z
  proof (rule distinct_concat_upt)
    fix x assume "x < ws"
    with that assms show "distinct (map snd (column_blocks noise wh z x))"
      by (simp add: column_positions_distinct)
  next
    fix i j :: nat
    assume "i \<noteq> j"
    then show "set (map snd (column_blocks noise wh z i)) \<inter> set (map snd (column_blocks noise wh z j)) = {}"
      using column_positions_x [of _ noise wh z i] column_positions_x [of _ noise wh z j]
      unfolding disjoint_iff by (metis of_nat_eq_iff)
  qed
  have "distinct (concat (map (\<lambda>z. map snd (concat (map (column_blocks noise wh z) [0..<ws]))) [0..<ws]))"
  proof (rule distinct_concat_upt)
    fix z assume "z < ws"
    then show "distinct (map snd (concat (map (column_blocks noise wh z) [0..<ws])))"
      using row by (simp add: map_concat comp_def)
  next
    fix i j :: nat
    assume "i \<noteq> j"
    then show "set (map snd (concat (map (column_blocks noise wh i) [0..<ws]))) \<inter>
               set (map snd (concat (map (column_blocks noise wh j) [0..<ws]))) = {}"
      using row_positions_z [of _ noise wh i "[0..<ws]"] row_positions_z [of _ noise wh j "[0..<ws]"]
      unfolding disjoint_iff by (metis of_nat_eq_iff)
  qed
  then show ?thesis
    by (simp add: map_concat comp_def)
qed

section \<open>Rounding\<close>

lemma py_round_cases:
  "py_round r = \<lfloor>r\<rfloor> \<or> py_round r = \<lfloor>r\<rfloor> + 1"
  by (simp add: py_round_def Let_def)




lemma py_round_tie_even: "r - of_int \<lfloor>r\<rfloor> = 1 / 2 \<Longrightarrow> even (py_round r)"
  by (auto simp: py_round_def Let_def)

lemma py_round_int [simp]: "py_round (of_int k) = k"
  by (simp add: py_round_def)

section \<open>The cases of \<open>Voxel.input\<close>\<close>

lemma key_names_differ: "''right mouse down'' \<noteq> ''left mouse down''"
  by simp

lemma Voxel_input_not_hovered:
  "Voxel_input self False key mouse_normal player cur sc = Inr sc"
  by (simp add: Voxel_input_def)

lemma Voxel_input_other_key:
  "key \<noteq> ''right mouse down'' \<Longrightarrow> key \<noteq> ''left mouse down'' \<Longrightarrow>
   Voxel_input self hovered key mouse_normal player cur sc = Inr sc"
  by (simp add: Voxel_input_def)

lemma actor_cell_eq:
  "p = actor_cell player \<longleftrightarrow>
     vec_x p = of_int (py_round (vec_x player)) \<and>
     vec_y p = of_int (py_round (vec_y player)) \<and>
     vec_z p = of_int (py_round (vec_z player))"
  by (cases p) (auto simp: actor_cell_def)

lemma Voxel_input_place:
  "Voxel_input self True ''right mouse down'' mouse_normal player cur sc =
     (if vec_add (position self) mouse_normal = actor_cell player then Inr sc
      else Voxel_init cur (vec_add (position self) mouse_normal) sc)"
  by (simp add: Voxel_input_def Let_def actor_cell_eq split: sum.splits)

lemma Voxel_input_destroy:
  "Voxel_input self True ''left mouse down'' mouse_normal player cur sc =
     (if block_type self \<noteq> ''bedrock'' then Inr (destroy self sc) else Inr sc)"
  by (simp add: Voxel_input_def)

lemma Voxel_input_cases:
  assumes "Voxel_input self hovered key mouse_normal player cur sc = Inr sc'"
  shows "sc' = sc \<or>
         (hovered \<and> key = ''right mouse down'' \<and> registered cur \<and>
          vec_add (position self) mouse_normal \<noteq> actor_cell player \<and>
          sc' = with_voxel (cur, vec_add (position self) mouse_normal) sc) \<or>
         (hovered \<and> key = ''left mouse down'' \<and> block_type self \<noteq> ''bedrock'' \<and>
          sc' = destroy self sc)"
proof (cases hovered)
  case False
  with assms show ?thesis by (simp add: Voxel_input_not_hovered)
next
  case True
  consider "key = ''right mouse down''" | "key = ''left mouse down''"
    | "key \<noteq> ''right mouse down''" "key \<noteq> ''left mouse down''"
    by blast
  then show ?thesis
  proof cases
    case 1
    show ?thesis
    proof (cases "registered cur")
      case r: True
      with assms True 1 show ?thesis
        by (auto simp: Voxel_input_place Voxel_init_registered split: if_splits)
    next
      case r: False
      with assms True 1 show ?thesis
        by (auto simp: Voxel_input_place Voxel_init_unregistered split: if_splits)
    qed
  next
    case 2
    with assms True show ?thesis
      by (auto simp: Voxel_input_destroy split: if_splits)
  next
    case 3
    with assms show ?thesis by (simp add: Voxel_input_other_key)
  qed
qed

section \<open>Identities, removal and occupancy\<close>


lemma well_formed_empty: "well_formed empty_scene"
  by (simp add: well_formed_def empty_scene_def)

lemma well_formed_with_voxel: "well_formed sc \<Longrightarrow> well_formed (with_voxel b sc)"
  by (auto simp: well_formed_def with_voxel_def list_all_iff less_Suc_eq)

lemma well_formed_with_voxels: "well_formed sc \<Longrightarrow> well_formed (with_voxels bs sc)"
  by (induction bs arbitrary: sc) (simp_all add: well_formed_with_voxel)

lemma well_formed_destroy: "well_formed sc \<Longrightarrow> well_formed (destroy self sc)"
  by (auto simp: well_formed_def destroy_def list_all_iff distinct_map_filter)

lemma well_formed_generate:
  "well_formed sc \<Longrightarrow> generate noise ws wh sc = Inr sc' \<Longrightarrow> well_formed sc'"
  by (auto simp: generate_eq well_formed_with_voxels)

lemma well_formed_Voxel_input:
  "well_formed sc \<Longrightarrow> Voxel_input self hovered key mouse_normal player cur sc = Inr sc' \<Longrightarrow>
   well_formed sc'"
  by (auto dest!: Voxel_input_cases simp: well_formed_with_voxel well_formed_destroy)

lemma filter_ident_remove1:
  assumes "distinct (map ident vs)" and "self \<in> set vs"
  shows "filter (\<lambda>v. ident v \<noteq> ident self) vs = remove1 self vs"
  using assms
proof (induction vs)
  case Nil
  then show ?case by simp
next
  case (Cons v vs)
  show ?case
  proof (cases "v = self")
    case True
    with Cons.prems(1) have "\<forall>w\<in>set vs. ident w \<noteq> ident self"
      by (metis distinct.simps(2) image_eqI list.simps(9) set_map)
    then have "filter (\<lambda>w. ident w \<noteq> ident self) vs = vs"
      by (simp add: filter_id_conv)
    with True show ?thesis by simp
  next
    case False
    with Cons.prems have "self \<in> set vs" "ident v \<noteq> ident self"
      by auto
    with Cons False show ?thesis by simp
  qed
qed

lemma entities_destroy:
  "well_formed sc \<Longrightarrow> self \<in> set (entities sc) \<Longrightarrow>
   entities (destroy self sc) = remove1 self (entities sc)"
  by (simp add: destroy_def well_formed_def filter_ident_remove1)

lemma self_not_in_destroy: "self \<notin> set (entities (destroy self sc))"
  by (simp add: destroy_def)

lemma others_in_destroy:
  "v \<in> set (entities sc) \<Longrightarrow> ident v \<noteq> ident self \<Longrightarrow> v \<in> set (entities (destroy self sc))"
  by (simp add: destroy_def)


lemma blocks_at_with_voxel:
  "blocks_at (with_voxel (bt, p) sc) c = (if p = c then blocks_at sc c @ [bt] else blocks_at sc c)"
  by (simp add: blocks_at_def with_voxel_def)

lemma entities_with_voxel:
  "entities (with_voxel (bt, p) sc) =
     entities sc @ [\<lparr>ident = next_ident sc, block_type = bt, position = p\<rparr>]"
  by (simp add: with_voxel_def)

lemma unique_occupancy_destroy: "unique_occupancy sc \<Longrightarrow> unique_occupancy (destroy self sc)"
  by (simp add: unique_occupancy_def destroy_def distinct_map_filter)

lemma unique_occupancy_with_voxel:
  "unique_occupancy sc \<Longrightarrow> blocks_at sc p = [] \<Longrightarrow> unique_occupancy (with_voxel (bt, p) sc)"
  by (auto simp: unique_occupancy_def with_voxel_def blocks_at_def filter_empty_conv)

section \<open>Generated terrain\<close>

text \<open>
  Claim C1. Generation never raises and, for every column \<open>(x, z)\<close> of the footprint, the
  voxels it creates in that column are, in this order: grass at the height
  \<open>floor (noise [x * 0.03, z * 0.03] * world_height)\<close>, dirt one and two cells below it,
  stone at every integer level from three cells below it down to 0 (none when that level is
  negative), and bedrock at level \<open>-1\<close>.
\<close>

theorem generation_layers:
  assumes "x < ws" and "z < ws"
  shows "\<exists>sc. generate noise ws wh empty_scene = Inr sc \<and>
           filter (in_column x z) (content sc) =
             (let height = \<lfloor>noise [real x * (3 / 100), real z * (3 / 100)] * of_int wh\<rfloor> in
              [(''grass'', (real x, of_int height, real z)),
               (''dirt'', (real x, of_int height - 1, real z)),
               (''dirt'', (real x, of_int height - 2, real z))]
              @ map (\<lambda>y. (''stone'', (real x, of_int y, real z))) (rev [0..height - 3])
              @ [(''bedrock'', (real x, - 1, real z))])"
proof -
  have "content empty_scene = []"
    by (simp add: content_def empty_scene_def)
  then show ?thesis
    using filter_in_column_generated [OF assms, of noise wh]
    by (simp add: generate_eq content_with_voxels column_blocks_def column_height_def
        Let_def range_down_upto)
qed

theorem generation_layers_witness:
  "(0::nat) < 1 \<and>
   (\<exists>sc. generate (\<lambda>p. 1 / 2) 1 8 empty_scene = Inr sc \<and>
      filter (in_column 0 0) (content sc) =
        [(''grass'', (0, 4, 0)), (''dirt'', (0, 3, 0)), (''dirt'', (0, 2, 0)),
         (''stone'', (0, 1, 0)), (''stone'', (0, 0, 0)), (''bedrock'', (0, - 1, 0))])"
proof -
  have up: "[0..(1::int)] = [0, 1]"
    by (simp add: upto.simps)
  show ?thesis
    using generation_layers [of 0 1 0 "\<lambda>p. 1 / 2" 8]
    by (simp add: up)
qed

lemma range_down_empty: "start \<le> stop \<Longrightarrow> range_down start stop = []"
  by (simp add: range_down.simps [of start stop])

lemma generate_flat: "generate flat_noise 1 8 empty_scene = Inr flat_scene"
  by (simp add: generate_eq column_blocks_def column_height_def flat_noise_def
      range_down_empty with_voxel_def empty_scene_def flat_scene_def)

text \<open>
  Claim C3, as stated, fails. With one column, \<open>world_height = 8\<close> and noise 0 the
  bedrock voxel created last at level \<open>-1\<close> does not overwrite the dirt voxel created
  there before it: the cell holds both.
\<close>

theorem flat_column_dirt_stays_under_bedrock:
  "generate flat_noise 1 8 empty_scene = Inr flat_scene \<and>
   blocks_at flat_scene (0, - 1, 0) = [''dirt'', ''bedrock''] \<and>
   blocks_at flat_scene (0, - 1, 0) \<noteq> [''bedrock'']"
  using generate_flat by (simp add: blocks_at_def flat_scene_def)

text \<open>
  Claim C3, amended. In that scenario generation creates exactly four voxels, in this
  order: grass at level 0, dirt at level \<open>-1\<close>, dirt at level \<open>-2\<close>, bedrock at level
  \<open>-1\<close>. No stone is created, and the cell at level \<open>-1\<close> holds the dirt and, created
  after it, the bedrock.
\<close>

theorem flat_column_scenario:
  "generate flat_noise 1 8 empty_scene = Inr flat_scene \<and>
   content flat_scene =
     [(''grass'', (0, 0, 0)), (''dirt'', (0, - 1, 0)), (''dirt'', (0, - 2, 0)),
      (''bedrock'', (0, - 1, 0))] \<and>
   blocks_at flat_scene (0, 0, 0) = [''grass''] \<and>
   blocks_at flat_scene (0, - 2, 0) = [''dirt''] \<and>
   blocks_at flat_scene (0, - 1, 0) = [''dirt'', ''bedrock''] \<and>
   ''stone'' \<notin> set (map fst (content flat_scene))"
  using generate_flat by (simp add: blocks_at_def content_def flat_scene_def)

section \<open>Occupancy of a coordinate\<close>

text \<open>
  Claim C2, as stated, fails. After the generation of the flat one-column world two voxels
  stand at the same coordinate.
\<close>

theorem generated_cell_with_two_voxels:
  "generate flat_noise 1 8 empty_scene = Inr flat_scene \<and> \<not> unique_occupancy flat_scene"
  using generate_flat by (simp add: unique_occupancy_def flat_scene_def)

text \<open>
  Claim C2, amended. The scene is a list of voxel objects and a coordinate may hold several
  of them. Generation leaves at most one voxel at every coordinate when no column of the
  footprint has a height of \<open>-1\<close>, 0 or 1. A call of \<open>Voxel.input\<close> keeps occupancy
  by at most one voxel when it destroys, when it does nothing, and when it places at a cell
  that holds no voxel.
\<close>

theorem occupancy_of_scene:
  "((\<forall>x<ws. \<forall>z<ws. column_height noise wh x z \<notin> {- 1, 0, 1}) \<longrightarrow>
      (\<exists>g. generate noise ws wh empty_scene = Inr g \<and> unique_occupancy g)) \<and>
   (unique_occupancy sc \<and>
    Voxel_input self hovered key mouse_normal player cur sc = Inr sc' \<and>
    (hovered \<and> key = ''right mouse down'' \<longrightarrow>
       blocks_at sc (vec_add (position self) mouse_normal) = []) \<longrightarrow>
    unique_occupancy sc')"
proof (intro conjI impI)
  assume "\<forall>x<ws. \<forall>z<ws. column_height noise wh x z \<notin> {- 1, 0, 1}"
  then have "distinct (map snd
      (concat (map (\<lambda>z. concat (map (column_blocks noise wh z) [0..<ws])) [0..<ws])))"
    by (intro generated_positions_distinct) simp
  moreover have "content empty_scene = []"
    by (simp add: content_def empty_scene_def)
  ultimately show "\<exists>g. generate noise ws wh empty_scene = Inr g \<and> unique_occupancy g"
    by (simp add: generate_eq unique_occupancy_def positions_content content_with_voxels)
next
  assume a: "unique_occupancy sc \<and>
    Voxel_input self hovered key mouse_normal player cur sc = Inr sc' \<and>
    (hovered \<and> key = ''right mouse down'' \<longrightarrow>
       blocks_at sc (vec_add (position self) mouse_normal) = [])"
  then have "Voxel_input self hovered key mouse_normal player cur sc = Inr sc'"
    by simp
  from Voxel_input_cases [OF this] a show "unique_occupancy sc'"
    by (auto simp: unique_occupancy_destroy unique_occupancy_with_voxel)
qed

theorem occupancy_of_scene_witness:
  "column_height (\<lambda>p. 1 / 2) 8 0 0 = 4 \<and>
   (\<exists>sc. generate (\<lambda>p. 1 / 2) 1 8 empty_scene = Inr sc \<and> unique_occupancy sc) \<and>
   unique_occupancy two_block_scene \<and>
   blocks_at two_block_scene (0, 1, 0) = [] \<and>
   Voxel_input grass_voxel True ''right mouse down'' (0, 1, 0) (5, 5, 5) ''wood'' two_block_scene =
     Inr \<lparr>entities = [grass_voxel, stone_voxel,
                     \<lparr>ident = 2, block_type = ''wood'', position = (0, 1, 0)\<rparr>],
          next_ident = 3\<rparr> \<and>
   unique_occupancy \<lparr>entities = [grass_voxel, stone_voxel,
                     \<lparr>ident = 2, block_type = ''wood'', position = (0, 1, 0)\<rparr>],
          next_ident = 3\<rparr>"
proof -
  have h: "column_height (\<lambda>p. 1 / 2) 8 0 0 = 4"
    by (simp add: column_height_def)
  have u: "unique_occupancy two_block_scene"
    by (simp add: unique_occupancy_def two_block_scene_def grass_voxel_def stone_voxel_def)
  have b: "blocks_at two_block_scene (0, 1, 0) = []"
    by (simp add: blocks_at_def two_block_scene_def grass_voxel_def stone_voxel_def)
  have p: "Voxel_input grass_voxel True ''right mouse down'' (0, 1, 0) (5, 5, 5) ''wood'' two_block_scene =
     Inr \<lparr>entities = [grass_voxel, stone_voxel,
                     \<lparr>ident = 2, block_type = ''wood'', position = (0, 1, 0)\<rparr>],
          next_ident = 3\<rparr>"
    by (simp add: Voxel_input_place actor_cell_def Voxel_init_registered with_voxel_def
        two_block_scene_def grass_voxel_def)
  show ?thesis
    using occupancy_of_scene [where ws = 1 and noise = "\<lambda>p. 1 / 2" and wh = 8
        and sc = two_block_scene and self = grass_voxel and hovered = True
        and key = "''right mouse down''" and mouse_normal = "(0, 1, 0)"
        and player = "(5, 5, 5)" and cur = "''wood''"
        and sc' = "\<lparr>entities = [grass_voxel, stone_voxel,
                     \<lparr>ident = 2, block_type = ''wood'', position = (0, 1, 0)\<rparr>],
          next_ident = 3\<rparr>"] h u b p
    by (simp add: grass_voxel_def)
qed

section \<open>Placing a block\<close>

lemma vec_add_zero_iff: "vec_add p n = p \<longleftrightarrow> n = (0, 0, 0)"
  by (cases p, cases n) auto

lemma Voxel_input_place_accepted:
  assumes "registered cur" and "vec_add (position self) mouse_normal \<noteq> actor_cell player"
  shows "Voxel_input self True ''right mouse down'' mouse_normal player cur sc =
           Inr (with_voxel (cur, vec_add (position self) mouse_normal) sc)"
  using assms by (simp add: Voxel_input_place Voxel_init_registered)

text \<open>
  Claim C4, as stated, fails. Placing at a cell that holds a voxel does not replace it: the
  stone voxel at \<open>(1, 0, 0)\<close> is still there after a dirt voxel has been placed at that
  cell.
\<close>

theorem place_on_occupied_cell_keeps_old_block:
  "blocks_at two_block_scene (1, 0, 0) = [''stone''] \<and>
   Voxel_input grass_voxel True ''right mouse down'' (1, 0, 0) (5, 5, 5) ''dirt'' two_block_scene =
     Inr \<lparr>entities = [grass_voxel, stone_voxel,
                      \<lparr>ident = 2, block_type = ''dirt'', position = (1, 0, 0)\<rparr>],
          next_ident = 3\<rparr> \<and>
   blocks_at \<lparr>entities = [grass_voxel, stone_voxel,
                      \<lparr>ident = 2, block_type = ''dirt'', position = (1, 0, 0)\<rparr>],
          next_ident = 3\<rparr> (1, 0, 0) = [''stone'', ''dirt'']"
  by (simp add: Voxel_input_place actor_cell_def Voxel_init_registered with_voxel_def
      two_block_scene_def grass_voxel_def stone_voxel_def blocks_at_def)

text \<open>
  Claim C4, amended. For every block type \<open>T\<close> of \<open>BLOCK_TYPES\<close> (bedrock included)
  and every target cell other than the cell of the player, placing succeeds and adds a voxel
  of type \<open>T\<close> at the target; the voxels that stood there before all stay. The blocks at
  the target afterwards are those before, followed by \<open>T\<close>; at an empty cell \<open>T\<close> is
  the only one.
\<close>

theorem place_adds_block:
  assumes "registered T" and "vec_add (position self) mouse_normal \<noteq> actor_cell player"
  shows "\<exists>sc'. Voxel_input self True ''right mouse down'' mouse_normal player T sc = Inr sc' \<and>
           blocks_at sc' (vec_add (position self) mouse_normal) =
             blocks_at sc (vec_add (position self) mouse_normal) @ [T]"
  using assms by (simp add: Voxel_input_place_accepted blocks_at_with_voxel)

theorem place_adds_block_witness:
  "registered ''bedrock'' \<and>
   vec_add (position grass_voxel) (0, 1, 0) \<noteq> actor_cell (5, 5, 5) \<and>
   (\<exists>sc'. Voxel_input grass_voxel True ''right mouse down'' (0, 1, 0) (5, 5, 5) ''bedrock''
            two_block_scene = Inr sc' \<and>
      blocks_at sc' (0, 1, 0) = [''bedrock''])"
proof -
  have r: "registered ''bedrock''" by simp
  have a: "vec_add (position grass_voxel) (0, 1, 0) \<noteq> actor_cell (5, 5, 5)"
    by (simp add: grass_voxel_def actor_cell_def)
  have b: "blocks_at two_block_scene (0, 1, 0) = []"
    by (simp add: blocks_at_def two_block_scene_def grass_voxel_def stone_voxel_def)
  have v: "vec_add (position grass_voxel) (0, 1, 0) = (0, 1, 0)"
    by (simp add: grass_voxel_def)
  show ?thesis
    using place_adds_block [OF r a, of two_block_scene] r a b v by simp
qed



text \<open>
  Claim C7. A place request on a hovered voxel creates the new voxel at the position of that
  voxel plus the normal of the face hit, with the selected block type; for a non-zero normal
  that is not the cell of the voxel hit. A voxel that is not hovered ignores every key, so
  without a hit neither placing nor destroying changes the scene.
\<close>

theorem place_targets_adjacent_cell:
  "(registered cur \<and> vec_add (position self) mouse_normal \<noteq> actor_cell player \<longrightarrow>
      Voxel_input self True ''right mouse down'' mouse_normal player cur sc =
        Inr \<lparr>entities = entities sc @
               [\<lparr>ident = next_ident sc, block_type = cur,
                 position = vec_add (position self) mouse_normal\<rparr>],
             next_ident = Suc (next_ident sc)\<rparr>) \<and>
   (mouse_normal \<noteq> (0, 0, 0) \<longrightarrow> vec_add (position self) mouse_normal \<noteq> position self) \<and>
   Voxel_input self False key mouse_normal player cur sc = Inr sc"
  by (simp add: Voxel_input_place_accepted with_voxel_def vec_add_zero_iff
      Voxel_input_not_hovered)

theorem place_targets_adjacent_cell_witness:
  "registered ''wood'' \<and>
   vec_add (position stone_voxel) (0, 1, 0) \<noteq> actor_cell (5, 5, 5) \<and>
   (0, 1, 0) \<noteq> (0 :: real, 0 :: real, 0 :: real) \<and>
   vec_add (position stone_voxel) (0, 1, 0) \<noteq> position stone_voxel \<and>
   Voxel_input stone_voxel True ''right mouse down'' (0, 1, 0) (5, 5, 5) ''wood'' two_block_scene =
     Inr \<lparr>entities = [grass_voxel, stone_voxel,
                      \<lparr>ident = 2, block_type = ''wood'', position = (1, 1, 0)\<rparr>],
          next_ident = 3\<rparr> \<and>
   Voxel_input stone_voxel False ''right mouse down'' (0, 1, 0) (5, 5, 5) ''wood'' two_block_scene =
     Inr two_block_scene \<and>
   Voxel_input stone_voxel False ''left mouse down'' (0, 1, 0) (5, 5, 5) ''wood'' two_block_scene =
     Inr two_block_scene"
proof -
  note inst = place_targets_adjacent_cell [where self = stone_voxel and cur = "''wood''"
      and mouse_normal = "(0, 1, 0)" and player = "(5, 5, 5)" and sc = two_block_scene]
  have r: "registered ''wood''" by simp
  have a: "vec_add (position stone_voxel) (0, 1, 0) \<noteq> actor_cell (5, 5, 5)"
    by (simp add: stone_voxel_def actor_cell_def)
  have n: "(0, 1, 0) \<noteq> (0 :: real, 0 :: real, 0 :: real)" by simp
  have placed: "Voxel_input stone_voxel True ''right mouse down'' (0, 1, 0) (5, 5, 5) ''wood''
        two_block_scene =
      Inr \<lparr>entities = entities two_block_scene @
             [\<lparr>ident = next_ident two_block_scene, block_type = ''wood'',
               position = vec_add (position stone_voxel) (0, 1, 0)\<rparr>],
           next_ident = Suc (next_ident two_block_scene)\<rparr>"
    using inst [THEN conjunct1] r a by blast
  have shape: "\<lparr>entities = entities two_block_scene @
             [\<lparr>ident = next_ident two_block_scene, block_type = ''wood'',
               position = vec_add (position stone_voxel) (0, 1, 0)\<rparr>],
           next_ident = Suc (next_ident two_block_scene)\<rparr> =
      \<lparr>entities = [grass_voxel, stone_voxel,
                      \<lparr>ident = 2, block_type = ''wood'', position = (1, 1, 0)\<rparr>],
          next_ident = 3\<rparr>"
    by (simp add: two_block_scene_def stone_voxel_def)
  have adjacent: "vec_add (position stone_voxel) (0, 1, 0) \<noteq> position stone_voxel"
    using inst [THEN conjunct2, THEN conjunct1] n by (rule mp)
  have idle: "Voxel_input stone_voxel False key (0, 1, 0) (5, 5, 5) ''wood'' two_block_scene =
      Inr two_block_scene" for key
    using place_targets_adjacent_cell [where self = stone_voxel and cur = "''wood''"
      and mouse_normal = "(0, 1, 0)" and player = "(5, 5, 5)" and sc = two_block_scene
      and key = key, THEN conjunct2, THEN conjunct2] .
  show ?thesis
    using r a n adjacent placed idle unfolding shape by blast
qed

section \<open>Destroying a block\<close>

lemma bedrock_only_cell:
  assumes "self \<in> set (entities sc)"
    and "set (blocks_at sc (position self)) \<subseteq> {''bedrock''}"
  shows "block_type self = ''bedrock''"
proof -
  from assms(1) have "block_type self \<in> set (blocks_at sc (position self))"
    by (simp add: blocks_at_def)
  with assms(2) show ?thesis by blast
qed

text \<open>
  Claim C5, as stated, fails. Destroying acts on the hovered voxel, not on a coordinate. In
  the generated flat column the cell at level \<open>-1\<close> holds a dirt voxel and the bedrock
  voxel; a destroy request on the dirt voxel succeeds, and the cell, which holds bedrock,
  changes from dirt and bedrock to bedrock alone.
\<close>

theorem destroy_changes_cell_holding_bedrock:
  "generate flat_noise 1 8 empty_scene = Inr flat_scene \<and>
   blocks_at flat_scene (0, - 1, 0) = [''dirt'', ''bedrock''] \<and>
   Voxel_input \<lparr>ident = 1, block_type = ''dirt'', position = (0, - 1, 0)\<rparr> True
     ''left mouse down'' (0, 1, 0) (5, 5, 5) ''grass'' flat_scene =
     Inr \<lparr>entities =
            [\<lparr>ident = 0, block_type = ''grass'', position = (0, 0, 0)\<rparr>,
             \<lparr>ident = 2, block_type = ''dirt'', position = (0, - 2, 0)\<rparr>,
             \<lparr>ident = 3, block_type = ''bedrock'', position = (0, - 1, 0)\<rparr>],
          next_ident = 4\<rparr> \<and>
   blocks_at
     \<lparr>entities =
        [\<lparr>ident = 0, block_type = ''grass'', position = (0, 0, 0)\<rparr>,
         \<lparr>ident = 2, block_type = ''dirt'', position = (0, - 2, 0)\<rparr>,
         \<lparr>ident = 3, block_type = ''bedrock'', position = (0, - 1, 0)\<rparr>],
      next_ident = 4\<rparr> (0, - 1, 0) = [''bedrock'']"
  using generate_flat
  by (simp add: Voxel_input_destroy destroy_def blocks_at_def flat_scene_def)

text \<open>
  Claim C5, amended. A destroy request on a bedrock voxel is always refused: the scene is
  returned unchanged, and no error value is produced. So a cell that holds nothing but
  bedrock is left as it is, no call of \<open>Voxel.input\<close> removes a bedrock voxel, and a
  cell that holds bedrock still holds it after every call. A destroy request on a hovered
  voxel of any other type removes exactly that voxel, also when a bedrock voxel shares its
  cell.
\<close>

theorem bedrock_is_never_destroyed:
  "(block_type self = ''bedrock'' \<longrightarrow>
      Voxel_input self hovered ''left mouse down'' mouse_normal player cur sc = Inr sc) \<and>
   (well_formed sc \<and> self \<in> set (entities sc) \<and> v \<in> set (entities sc) \<and>
    block_type v = ''bedrock'' \<and>
    Voxel_input self hovered key mouse_normal player cur sc = Inr sc' \<longrightarrow>
      v \<in> set (entities sc')) \<and>
   (well_formed sc \<and> self \<in> set (entities sc) \<and> block_type self \<noteq> ''bedrock'' \<longrightarrow>
      Voxel_input self True ''left mouse down'' mouse_normal player cur sc = Inr (destroy self sc) \<and>
      entities (destroy self sc) = remove1 self (entities sc) \<and>
      self \<notin> set (entities (destroy self sc))) \<and>
   (self \<in> set (entities sc) \<and> set (blocks_at sc (position self)) \<subseteq> {''bedrock''} \<longrightarrow>
      Voxel_input self hovered ''left mouse down'' mouse_normal player cur sc = Inr sc) \<and>
   (well_formed sc \<and> self \<in> set (entities sc) \<and> ''bedrock'' \<in> set (blocks_at sc c) \<and>
    Voxel_input self hovered key mouse_normal player cur sc = Inr sc' \<longrightarrow>
      ''bedrock'' \<in> set (blocks_at sc' c))"
proof (intro conjI impI)
  assume "block_type self = ''bedrock''"
  then show "Voxel_input self hovered ''left mouse down'' mouse_normal player cur sc = Inr sc"
    by (cases hovered) (simp_all add: Voxel_input_destroy Voxel_input_not_hovered)
next
  assume a: "well_formed sc \<and> self \<in> set (entities sc) \<and> v \<in> set (entities sc) \<and>
    block_type v = ''bedrock'' \<and>
    Voxel_input self hovered key mouse_normal player cur sc = Inr sc'"
  then have run: "Voxel_input self hovered key mouse_normal player cur sc = Inr sc'"
    by simp
  have other: "ident v \<noteq> ident self" if "block_type self \<noteq> ''bedrock''"
  proof
    assume "ident v = ident self"
    moreover from a have "distinct (map ident (entities sc))"
      by (simp add: well_formed_def)
    ultimately have "v = self"
      using a by (simp add: distinct_map inj_on_def)
    with a that show False by simp
  qed
  from Voxel_input_cases [OF run] show "v \<in> set (entities sc')"
    using a other by (auto simp: entities_with_voxel others_in_destroy)
next
  assume a: "well_formed sc \<and> self \<in> set (entities sc) \<and> block_type self \<noteq> ''bedrock''"
  then show "Voxel_input self True ''left mouse down'' mouse_normal player cur sc = Inr (destroy self sc)"
    by (simp add: Voxel_input_destroy)
  from a show "entities (destroy self sc) = remove1 self (entities sc)"
    by (simp add: entities_destroy)
  show "self \<notin> set (entities (destroy self sc))"
    by (rule self_not_in_destroy)
next
  assume "self \<in> set (entities sc) \<and> set (blocks_at sc (position self)) \<subseteq> {''bedrock''}"
  then have "block_type self = ''bedrock''"
    using bedrock_only_cell [of self sc] by blast
  then show "Voxel_input self hovered ''left mouse down'' mouse_normal player cur sc = Inr sc"
    by (cases hovered) (simp_all add: Voxel_input_destroy Voxel_input_not_hovered)
next
  assume a: "well_formed sc \<and> self \<in> set (entities sc) \<and> ''bedrock'' \<in> set (blocks_at sc c) \<and>
    Voxel_input self hovered key mouse_normal player cur sc = Inr sc'"
  then obtain v where v: "v \<in> set (entities sc)" "block_type v = ''bedrock''" "position v = c"
    by (auto simp: blocks_at_def)
  from a have run: "Voxel_input self hovered key mouse_normal player cur sc = Inr sc'"
    by simp
  have other: "ident v \<noteq> ident self" if "block_type self \<noteq> ''bedrock''"
  proof
    assume "ident v = ident self"
    moreover from a have "distinct (map ident (entities sc))"
      by (simp add: well_formed_def)
    ultimately have "v = self"
      using a v by (simp add: distinct_map inj_on_def)
    with v that show False by simp
  qed
  from Voxel_input_cases [OF run] have "v \<in> set (entities sc')"
    using v other by (auto simp: entities_with_voxel others_in_destroy)
  with v show "''bedrock'' \<in> set (blocks_at sc' c)"
    by (force simp: blocks_at_def)
qed

theorem bedrock_is_never_destroyed_witness:
  "block_type \<lparr>ident = 3, block_type = ''bedrock'', position = (0, - 1, 0)\<rparr> = ''bedrock'' \<and>
   Voxel_input \<lparr>ident = 3, block_type = ''bedrock'', position = (0, - 1, 0)\<rparr> True
     ''left mouse down'' (0, 1, 0) (5, 5, 5) ''grass'' flat_scene = Inr flat_scene \<and>
   well_formed flat_scene \<and>
   \<lparr>ident = 1, block_type = ''dirt'', position = (0, - 1, 0)\<rparr> \<in> set (entities flat_scene) \<and>
   \<lparr>ident = 3, block_type = ''bedrock'', position = (0, - 1, 0)\<rparr> \<in> set (entities flat_scene) \<and>
   Voxel_input \<lparr>ident = 1, block_type = ''dirt'', position = (0, - 1, 0)\<rparr> True
     ''left mouse down'' (0, 1, 0) (5, 5, 5) ''grass'' flat_scene =
     Inr (destroy \<lparr>ident = 1, block_type = ''dirt'', position = (0, - 1, 0)\<rparr> flat_scene) \<and>
   \<lparr>ident = 3, block_type = ''bedrock'', position = (0, - 1, 0)\<rparr>
     \<in> set (entities (destroy \<lparr>ident = 1, block_type = ''dirt'', position = (0, - 1, 0)\<rparr> flat_scene)) \<and>
   \<lparr>ident = 1, block_type = ''dirt'', position = (0, - 1, 0)\<rparr>
     \<notin> set (entities (destroy \<lparr>ident = 1, block_type = ''dirt'', position = (0, - 1, 0)\<rparr> flat_scene)) \<and>
   ''bedrock'' \<in> set (blocks_at flat_scene (0, - 1, 0)) \<and>
   ''bedrock'' \<in> set (blocks_at
      (destroy \<lparr>ident = 1, block_type = ''dirt'', position = (0, - 1, 0)\<rparr> flat_scene) (0, - 1, 0)) \<and>
   bedrock_voxel \<in> set (entities bedrock_scene) \<and>
   set (blocks_at bedrock_scene (position bedrock_voxel)) \<subseteq> {''bedrock''} \<and>
   Voxel_input bedrock_voxel True ''left mouse down'' (0, 1, 0) (5, 5, 5) ''grass'' bedrock_scene =
     Inr bedrock_scene"
proof -
  let ?b = "\<lparr>ident = 3, block_type = ''bedrock'', position = (0, - 1, 0)\<rparr> :: voxel"
  let ?d = "\<lparr>ident = 1, block_type = ''dirt'', position = (0, - 1, 0)\<rparr> :: voxel"
  note inst_b = bedrock_is_never_destroyed [where self = ?b and hovered = True
      and sc = flat_scene and mouse_normal = "(0, 1, 0)" and player = "(5, 5, 5)"
      and cur = "''grass''"]
  note inst_d = bedrock_is_never_destroyed [where self = ?d and hovered = True
      and key = "''left mouse down''" and v = ?b and c = "(0, - 1, 0)"
      and sc = flat_scene and sc' = "destroy ?d flat_scene"
      and mouse_normal = "(0, 1, 0)" and player = "(5, 5, 5)" and cur = "''grass''"]
  note inst_l = bedrock_is_never_destroyed [where self = bedrock_voxel and hovered = True
      and sc = bedrock_scene and mouse_normal = "(0, 1, 0)" and player = "(5, 5, 5)"
      and cur = "''grass''"]
  have tb: "block_type ?b = ''bedrock''" by simp
  have td: "block_type ?d \<noteq> ''bedrock''" by simp
  have wf: "well_formed flat_scene"
    by (simp add: well_formed_def flat_scene_def)
  have d: "?d \<in> set (entities flat_scene)" and b: "?b \<in> set (entities flat_scene)"
    by (simp_all add: flat_scene_def)
  have cell: "''bedrock'' \<in> set (blocks_at flat_scene (0, - 1, 0))"
    by (simp add: blocks_at_def flat_scene_def)
  have lone: "bedrock_voxel \<in> set (entities bedrock_scene)"
    by (simp add: bedrock_scene_def)
  have only: "set (blocks_at bedrock_scene (position bedrock_voxel)) \<subseteq> {''bedrock''}"
    by (simp add: blocks_at_def bedrock_scene_def bedrock_voxel_def grass_voxel_def)
  have first: "Voxel_input ?b True ''left mouse down'' (0, 1, 0) (5, 5, 5) ''grass'' flat_scene
        = Inr flat_scene"
    using inst_b [THEN conjunct1] tb by (rule mp)
  have third: "Voxel_input ?d True ''left mouse down'' (0, 1, 0) (5, 5, 5) ''grass'' flat_scene
        = Inr (destroy ?d flat_scene) \<and>
      entities (destroy ?d flat_scene) = remove1 ?d (entities flat_scene) \<and>
      ?d \<notin> set (entities (destroy ?d flat_scene))"
    using inst_d [THEN conjunct2, THEN conjunct2, THEN conjunct1] wf d td by blast
  have second: "?b \<in> set (entities (destroy ?d flat_scene))"
    using inst_d [THEN conjunct2, THEN conjunct1] wf d b tb third by blast
  have fourth: "Voxel_input bedrock_voxel True ''left mouse down'' (0, 1, 0) (5, 5, 5) ''grass''
        bedrock_scene = Inr bedrock_scene"
    using inst_l [THEN conjunct2, THEN conjunct2, THEN conjunct2, THEN conjunct1] lone only
    by blast
  have fifth: "''bedrock'' \<in> set (blocks_at (destroy ?d flat_scene) (0, - 1, 0))"
    using inst_d [THEN conjunct2, THEN conjunct2, THEN conjunct2, THEN conjunct2] wf d cell third
    by blast
  show ?thesis
    using tb first wf d b second third cell fifth lone only fourth by blast
qed



section \<open>Selecting the block type and recovering from a fall\<close>

lemma block_map_Some:
  "map_of block_map key = Some bt \<longleftrightarrow>
     (key, bt) \<in> {(''1'', ''grass''), (''2'', ''dirt''), (''3'', ''stone''), (''4'', ''wood'')}"
  by (auto simp: block_map_def split: if_splits)

lemma block_map_registered: "map_of block_map key = Some bt \<Longrightarrow> registered bt"
  by (auto simp: block_map_Some)

lemma block_map_key_digit:
  "map_of block_map key = Some bt \<Longrightarrow> isdigit key \<and> 1 \<le> py_int key \<and> py_int key < 5"
  by (auto simp: block_map_Some isdigit_def char_isdigit_def py_int_def)

lemma select_block_known:
  "map_of block_map key = Some bt \<Longrightarrow>
   select_block key s =
     Inr (s\<lparr>current_block_type := bt, current_block_text := ''Selected: '' @ capitalize bt\<rparr>)"
  using block_map_key_digit [of key bt] by (simp add: select_block_def)

lemma select_block_unknown:
  "map_of block_map key = None \<Longrightarrow>
   select_block key s =
     (if isdigit key \<and> 1 \<le> py_int key \<and> py_int key < 5 then Inl (KeyError key) else Inr s)"
  by (simp add: select_block_def)

lemma select_block_raises_iff:
  "select_block key s = Inl e \<longleftrightarrow>
     e = KeyError key \<and> isdigit key \<and> 1 \<le> py_int key \<and> py_int key < 5 \<and>
     map_of block_map key = None"
  by (cases "map_of block_map key") (auto simp: select_block_unknown select_block_known)

lemma input_Inr:
  "input key s = Inr s' \<longleftrightarrow> (\<exists>s1. select_block key s = Inr s1 \<and> s' = fall_reset s1)"
  by (auto simp: input_def split: sum.splits)

lemma input_Inl: "input key s = Inl e \<longleftrightarrow> select_block key s = Inl e"
  by (auto simp: input_def split: sum.splits)

lemma select_block_player:
  "select_block key s = Inr s1 \<Longrightarrow> player_position s1 = player_position s"
  by (cases "map_of block_map key") (auto simp: select_block_unknown select_block_known split: if_splits)

lemma fall_reset_selection [simp]:
  "current_block_type (fall_reset s) = current_block_type s"
  "current_block_text (fall_reset s) = current_block_text s"
  by (simp_all add: fall_reset_def)

lemma fall_reset_player:
  "player_position (fall_reset s) =
     (if vec_y (player_position s) < - 10 then respawn_position else player_position s)"
  by (simp add: fall_reset_def)

lemma respawn_position_value: "respawn_position = (12, 13, 12)"
  by (simp add: respawn_position_def world_size_def world_height_def)

lemma initial_label: "current_block_text initial_session = ''Selected: Grass''"
  by code_simp

lemma select_block_registered:
  assumes "registered (current_block_type s)" and "select_block key s = Inr s'"
  shows "registered (current_block_type s')"
proof (cases "map_of block_map key")
  case None
  with assms show ?thesis
    by (auto simp: select_block_unknown split: if_splits)
next
  case (Some bt)
  with assms block_map_registered [OF Some] show ?thesis
    by (auto simp: select_block_known)
qed

lemma py_int_snoc: "py_int (xs @ [c]) = 10 * py_int xs + (int (of_char c) - 48)"
  by (simp add: py_int_def)

lemma char_isdigit_value: "char_isdigit c \<Longrightarrow> 0 \<le> int (of_char c) - 48 \<and> int (of_char c) - 48 \<le> 9"
  unfolding char_isdigit_def by linarith

lemma py_int_nonneg: "list_all char_isdigit xs \<Longrightarrow> 0 \<le> py_int xs"
proof (induction xs rule: rev_induct)
  case Nil
  then show ?case by (simp add: py_int_def)
next
  case (snoc c xs)
  then have "0 \<le> py_int xs" and "char_isdigit c"
    by simp_all
  then have "0 \<le> 10 * py_int xs + (int (of_char c) - 48)"
    using char_isdigit_value [of c] by linarith
  then show ?case by (simp only: py_int_snoc)
qed

lemma char_of_code:
  "(of_char c :: nat) = of_char d \<Longrightarrow> c = d"
  by simp

lemma zero_char: "int (of_char c) - 48 = 0 \<Longrightarrow> c = CHR ''0''"
proof -
  assume "int (of_char c) - 48 = 0"
  then have "(of_char c :: nat) = of_char (CHR ''0'')" by simp
  then show ?thesis by (rule char_of_code)
qed

lemma selector_char:
  assumes "1 \<le> int (of_char c) - 48" and "int (of_char c) - 48 < 5"
  shows "c \<in> set ''1234''"
proof -
  from assms have "(of_char c :: nat) = 49 \<or> (of_char c :: nat) = 50 \<or>
      (of_char c :: nat) = 51 \<or> (of_char c :: nat) = 52"
    by linarith
  then have "(of_char c :: nat) = of_char (CHR ''1'') \<or> (of_char c :: nat) = of_char (CHR ''2'') \<or>
      (of_char c :: nat) = of_char (CHR ''3'') \<or> (of_char c :: nat) = of_char (CHR ''4'')"
    by simp
  then have "c = CHR ''1'' \<or> c = CHR ''2'' \<or> c = CHR ''3'' \<or> c = CHR ''4''"
    using char_of_code by blast
  then show ?thesis by auto
qed

lemma py_int_zero_zeros:
  "list_all char_isdigit xs \<Longrightarrow> py_int xs = 0 \<Longrightarrow> xs = replicate (length xs) (CHR ''0'')"
proof (induction xs rule: rev_induct)
  case Nil
  then show ?case by simp
next
  case (snoc c xs)
  then have d: "list_all char_isdigit xs" "char_isdigit c" by simp_all
  have nn: "0 \<le> py_int xs" "0 \<le> int (of_char c) - 48"
    using d py_int_nonneg [of xs] char_isdigit_value [of c] by blast+
  from snoc.prems(2) have "10 * py_int xs + (int (of_char c) - 48) = 0"
    by (simp only: py_int_snoc)
  with nn have z: "py_int xs = 0" "int (of_char c) - 48 = 0"
    by linarith+
  from z(2) have "c = CHR ''0''" by (rule zero_char)
  moreover from snoc.IH d z have "xs = replicate (length xs) (CHR ''0'')" by simp
  ultimately have "xs @ [c] = replicate (length xs) (CHR ''0'') @ [CHR ''0'']"
    by simp
  then show ?case by (simp add: replicate_append_same)
qed

lemma selector_shape:
  assumes "isdigit key" and "1 \<le> py_int key" and "py_int key < 5"
  shows "\<exists>n d. d \<in> set ''1234'' \<and> key = replicate n (CHR ''0'') @ [d]"
proof -
  from assms(1) obtain xs c where key: "key = xs @ [c]"
    by (cases key rule: rev_cases) (auto simp: isdigit_def)
  with assms(1) have d: "list_all char_isdigit xs" "char_isdigit c"
    by (simp_all add: isdigit_def)
  have nn: "0 \<le> py_int xs" "0 \<le> int (of_char c) - 48" "int (of_char c) - 48 \<le> 9"
    using d py_int_nonneg [of xs] char_isdigit_value [of c] by blast+
  from assms(2,3) key have r: "1 \<le> 10 * py_int xs + (int (of_char c) - 48)"
    "10 * py_int xs + (int (of_char c) - 48) < 5"
    by (simp_all only: py_int_snoc)
  with nn have z0: "py_int xs = 0"
    by linarith
  with r have z: "py_int xs = 0" "1 \<le> int (of_char c) - 48" "int (of_char c) - 48 < 5"
    by simp_all
  from d(1) z(1) have "xs = replicate (length xs) (CHR ''0'')"
    by (rule py_int_zero_zeros)
  moreover from z(2,3) have "c \<in> set ''1234''" by (rule selector_char)
  ultimately show ?thesis using key by blast
qed

lemma select_block_ignored:
  assumes "\<forall>n d. d \<in> set ''1234'' \<longrightarrow> key \<noteq> replicate n (CHR ''0'') @ [d]"
  shows "select_block key s = Inr s"
proof -
  have "\<not> (isdigit key \<and> 1 \<le> py_int key \<and> py_int key < 5)"
    using assms selector_shape [of key] by blast
  then show ?thesis
    unfolding select_block_def by (rule if_not_P)
qed

lemma not_selector_by_last:
  "last key \<notin> set ''1234'' \<Longrightarrow>
   \<forall>n d. d \<in> set ''1234'' \<longrightarrow> key \<noteq> replicate n (CHR ''0'') @ [d]"
  by auto

lemma capitalize_dirt: "capitalize ''dirt'' = ''Dirt''"
  by code_simp

text \<open>
  Claim C8, as stated, fails. The selection command is a key, not the name of a block type,
  and the catalogue is not consulted: \<open>2\<close> is not a registered name, yet it is accepted
  and changes the selection from grass to dirt, while the registered name \<open>stone\<close>
  selects nothing.
\<close>

theorem unregistered_name_is_selected:
  "\<not> registered ''2'' \<and>
   current_block_type initial_session = ''grass'' \<and>
   select_block ''2'' initial_session =
     Inr (initial_session\<lparr>current_block_type := ''dirt'',
            current_block_text := ''Selected: Dirt''\<rparr>) \<and>
   registered ''stone'' \<and>
   select_block ''stone'' initial_session = Inr initial_session"
proof -
  have "\<not> registered ''2''"
    by (simp add: registered_def BLOCK_TYPES_def)
  moreover have "current_block_type initial_session = ''grass''"
    by (simp add: initial_session_def)
  moreover have "map_of block_map ''2'' = Some ''dirt''"
    by (simp add: block_map_def)
  then have "select_block ''2'' initial_session =
     Inr (initial_session\<lparr>current_block_type := ''dirt'',
            current_block_text := ''Selected: Dirt''\<rparr>)"
    by (simp add: select_block_known capitalize_dirt)
  moreover have "select_block ''stone'' initial_session = Inr initial_session"
    by (simp add: select_block_def isdigit_def char_isdigit_def)
  ultimately show ?thesis by simp
qed

text \<open>
  Claim C8, amended. The selection starts as grass. The keys 1, 2, 3 and 4 select grass,
  dirt, stone and wood, all of them members of \<open>BLOCK_TYPES\<close>; such a selection changes
  the selected type and the label that shows it, and nothing else. Every key that is not a
  run of zeros followed by one of the digits 1 to 4 is ignored: the session is returned as
  it is, without an error value; this covers the names of block types, registered or not.
  No key other than those four ever changes the selection, and the selection is a member of
  \<open>BLOCK_TYPES\<close> at all times.
\<close>

theorem selection_by_key:
  "current_block_type initial_session = ''grass'' \<and>
   ((key, bt) \<in> {(''1'', ''grass''), (''2'', ''dirt''), (''3'', ''stone''), (''4'', ''wood'')} \<longrightarrow>
      registered bt \<and>
      select_block key s =
        Inr (s\<lparr>current_block_type := bt,
                current_block_text := ''Selected: '' @ capitalize bt\<rparr>) \<and>
      (\<exists>s'. input key s = Inr s' \<and> current_block_type s' = bt)) \<and>
   ((\<forall>n d. d \<in> set ''1234'' \<longrightarrow> key \<noteq> replicate n (CHR ''0'') @ [d]) \<longrightarrow>
      select_block key s = Inr s \<and>
      (\<exists>s'. input key s = Inr s' \<and> current_block_type s' = current_block_type s)) \<and>
   (key \<notin> {''1'', ''2'', ''3'', ''4''} \<and> input key s = Inr t \<longrightarrow>
      current_block_type t = current_block_type s) \<and>
   (registered (current_block_type s) \<and> input key s = Inr u \<longrightarrow>
      registered (current_block_type u))"
proof (intro conjI impI)
  show "current_block_type initial_session = ''grass''"
    by (simp add: initial_session_def)
next
  assume "(key, bt) \<in> {(''1'', ''grass''), (''2'', ''dirt''), (''3'', ''stone''), (''4'', ''wood'')}"
  then have k: "map_of block_map key = Some bt"
    by (simp only: block_map_Some)
  then show "registered bt"
    by (rule block_map_registered)
  from k show "select_block key s =
      Inr (s\<lparr>current_block_type := bt, current_block_text := ''Selected: '' @ capitalize bt\<rparr>)"
    by (rule select_block_known)
  from k show "\<exists>s'. input key s = Inr s' \<and> current_block_type s' = bt"
    by (simp add: input_Inr select_block_known)
next
  assume a: "\<forall>n d. d \<in> set ''1234'' \<longrightarrow> key \<noteq> replicate n (CHR ''0'') @ [d]"
  then show i: "select_block key s = Inr s"
    by (rule select_block_ignored)
  then show "\<exists>s'. input key s = Inr s' \<and> current_block_type s' = current_block_type s"
    by (simp add: input_Inr)
next
  assume a: "key \<notin> {''1'', ''2'', ''3'', ''4''} \<and> input key s = Inr t"
  then have "map_of block_map key = None"
    by (cases "map_of block_map key") (auto simp: block_map_Some)
  with a show "current_block_type t = current_block_type s"
    by (auto simp: input_Inr select_block_unknown split: if_splits)
next
  assume "registered (current_block_type s) \<and> input key s = Inr u"
  then show "registered (current_block_type u)"
    by (auto simp: input_Inr dest: select_block_registered)
qed

theorem selection_by_key_witness:
  "select_block ''lava'' initial_session = Inr initial_session \<and>
   select_block ''stone'' initial_session = Inr initial_session \<and>
   select_block ''7'' initial_session = Inr initial_session \<and>
   select_block ''12'' initial_session = Inr initial_session \<and>
   input ''lava'' initial_session = Inr initial_session \<and>
   ''lava'' \<notin> {''1'', ''2'', ''3'', ''4''} \<and>
   current_block_type initial_session = ''grass'' \<and>
   registered (current_block_type initial_session) \<and>
   select_block ''3'' initial_session =
     Inr (initial_session\<lparr>current_block_type := ''stone'',
            current_block_text := ''Selected: '' @ capitalize ''stone''\<rparr>) \<and>
   registered ''stone''"
proof -
  note lava = selection_by_key [where key = "''lava''" and s = initial_session
      and t = initial_session and u = initial_session]
  note stone = selection_by_key [where key = "''stone''" and s = initial_session]
  note seven = selection_by_key [where key = "''7''" and s = initial_session]
  note twelve = selection_by_key [where key = "''12''" and s = initial_session]
  note three = selection_by_key [where key = "''3''" and bt = "''stone''" and s = initial_session]
  have h1: "\<forall>n d. d \<in> set ''1234'' \<longrightarrow> ''lava'' \<noteq> replicate n (CHR ''0'') @ [d]"
    by (rule not_selector_by_last) simp
  have h2: "\<forall>n d. d \<in> set ''1234'' \<longrightarrow> ''stone'' \<noteq> replicate n (CHR ''0'') @ [d]"
    by (rule not_selector_by_last) simp
  have h3: "\<forall>n d. d \<in> set ''1234'' \<longrightarrow> ''7'' \<noteq> replicate n (CHR ''0'') @ [d]"
    by (rule not_selector_by_last) simp
  have h4: "\<forall>n d. d \<in> set ''1234'' \<longrightarrow> ''12'' \<noteq> replicate n (CHR ''0'') @ [d]"
  proof (intro allI impI notI)
    fix n d
    assume "d \<in> set ''1234''" and e: "''12'' = replicate n (CHR ''0'') @ [d]"
    from e have "butlast ''12'' = replicate n (CHR ''0'')"
      by (metis butlast_snoc)
    then have "CHR ''1'' \<in> set (replicate n (CHR ''0''))"
      by (metis butlast.simps(2) list.set_intros(1) list.simps(3))
    then show False by simp
  qed
  have k: "(''3'', ''stone'') \<in>
      {(''1'', ''grass''), (''2'', ''dirt''), (''3'', ''stone''), (''4'', ''wood'')}"
    by simp
  have nk: "''lava'' \<notin> {''1'', ''2'', ''3'', ''4''}"
    by simp
  have i: "input ''lava'' initial_session = Inr initial_session"
    by (simp add: input_def select_block_def isdigit_def char_isdigit_def fall_reset_def
        initial_session_def respawn_position_def world_size_def world_height_def)
  have g: "current_block_type initial_session = ''grass''"
    by (rule lava [THEN conjunct1])
  have r0: "registered (current_block_type initial_session)"
    by (simp add: g)
  have s1: "select_block ''lava'' initial_session = Inr initial_session"
    using lava [THEN conjunct2, THEN conjunct2, THEN conjunct1] h1 by blast
  have s2: "select_block ''stone'' initial_session = Inr initial_session"
    using stone [THEN conjunct2, THEN conjunct2, THEN conjunct1] h2 by blast
  have s3: "select_block ''7'' initial_session = Inr initial_session"
    using seven [THEN conjunct2, THEN conjunct2, THEN conjunct1] h3 by blast
  have s4: "select_block ''12'' initial_session = Inr initial_session"
    using twelve [THEN conjunct2, THEN conjunct2, THEN conjunct1] h4 by blast
  have kept: "current_block_type initial_session = current_block_type initial_session"
    using lava [THEN conjunct2, THEN conjunct2, THEN conjunct2, THEN conjunct1] nk i by blast
  have reg: "registered (current_block_type initial_session)"
    using lava [THEN conjunct2, THEN conjunct2, THEN conjunct2, THEN conjunct2] r0 i by blast
  have chosen: "registered ''stone'' \<and> select_block ''3'' initial_session =
     Inr (initial_session\<lparr>current_block_type := ''stone'',
            current_block_text := ''Selected: '' @ capitalize ''stone''\<rparr>)"
    using three [THEN conjunct2, THEN conjunct1] k by blast
  show ?thesis
    using s1 s2 s3 s4 i nk g reg chosen by blast
qed

text \<open>
  Claim C9, as stated, fails. The check is part of the key handler and is not run on a
  frame tick: a player below the threshold is still there after the tick.
\<close>

theorem frame_tick_runs_no_fall_check:
  "vec_y (player_position fallen_session) < - 10 \<and>
   on_event id FrameTick fallen_session = Inr fallen_session \<and>
   player_position fallen_session \<noteq> respawn_position"
  by (simp add: on_event_def fallen_session_def respawn_position_value)

text \<open>
  Claim C9, amended. The check runs at the end of each call of the global key handler, not
  on frame ticks. When the handler returns, the player is at the respawn position
  \<open>(world_size / 2, world_height + 5, world_size / 2)\<close> if its height was below
  \<open>-10\<close>, and where it was otherwise; the handler returns for every key that is not a
  digit string and for the four selection keys. The handler has no access to the scene.
\<close>

theorem fall_reset_on_key_events:
  "on_event physics FrameTick s = Inr (s\<lparr>player_position := physics (player_position s)\<rparr>) \<and>
   on_event physics (KeyPressed key) s = input key s \<and>
   (input key s = Inr s' \<longrightarrow>
      player_position s' =
        (if vec_y (player_position s) < - 10 then respawn_position else player_position s)) \<and>
   (\<not> isdigit key \<or> map_of block_map key \<noteq> None \<longrightarrow> (\<exists>s1. input key s = Inr s1)) \<and>
   respawn_position = (12, 13, 12)"
proof (intro conjI impI)
  show "on_event physics FrameTick s = Inr (s\<lparr>player_position := physics (player_position s)\<rparr>)"
    by (simp add: on_event_def)
  show "on_event physics (KeyPressed key) s = input key s"
    by (simp add: on_event_def)
  show "respawn_position = (12, 13, 12)"
    by (rule respawn_position_value)
  have raises: "(\<exists>e. input key s = Inl e) \<longleftrightarrow>
      isdigit key \<and> 1 \<le> py_int key \<and> py_int key < 5 \<and> map_of block_map key = None"
    by (auto simp: input_Inl select_block_raises_iff)
  show "\<exists>s1. input key s = Inr s1" if "\<not> isdigit key \<or> map_of block_map key \<noteq> None"
  proof (cases "input key s")
    case (Inl e)
    with raises that show ?thesis by blast
  next
    case (Inr s1)
    then show ?thesis by blast
  qed
next
  assume "input key s = Inr s'"
  then obtain s1 where "select_block key s = Inr s1" and "s' = fall_reset s1"
    by (auto simp: input_Inr)
  then show "player_position s' =
        (if vec_y (player_position s) < - 10 then respawn_position else player_position s)"
    by (simp add: fall_reset_player select_block_player)
qed

theorem fall_reset_on_key_events_witness:
  "input ''w'' fallen_session = Inr (fallen_session\<lparr>player_position := (12, 13, 12)\<rparr>) \<and>
   player_position (fallen_session\<lparr>player_position := (12, 13, 12)\<rparr>) = respawn_position \<and>
   vec_y (player_position fallen_session) < - 10 \<and>
   \<not> isdigit ''w'' \<and>
   input ''w'' initial_session = Inr initial_session \<and>
   \<not> vec_y (player_position initial_session) < - 10"
proof -
  note inst = fall_reset_on_key_events [where key = "''w''" and s = fallen_session
      and s' = "fallen_session\<lparr>player_position := (12, 13, 12)\<rparr>"]
  have w: "\<not> isdigit ''w''"
    by (simp add: isdigit_def char_isdigit_def)
  have low: "vec_y (player_position fallen_session) < - 10"
    by (simp add: fallen_session_def)
  have high: "\<not> vec_y (player_position initial_session) < - 10"
    by (simp add: initial_session_def respawn_position_value)
  have run: "input ''w'' fallen_session = Inr (fallen_session\<lparr>player_position := (12, 13, 12)\<rparr>)"
    by (simp add: input_def select_block_def w fall_reset_def low respawn_position_value)
  have stay: "input ''w'' initial_session = Inr initial_session"
    by (simp add: input_def select_block_def w fall_reset_def high)
  have returns: "\<exists>s1. input ''w'' fallen_session = Inr s1"
    using inst [THEN conjunct2, THEN conjunct2, THEN conjunct2, THEN conjunct1] w
    by blast
  have "player_position (fallen_session\<lparr>player_position := (12, 13, 12)\<rparr>) =
      (if vec_y (player_position fallen_session) < - 10 then respawn_position
       else player_position fallen_session)"
    using inst [THEN conjunct2, THEN conjunct2, THEN conjunct1] run by (rule mp)
  with low have reset: "player_position (fallen_session\<lparr>player_position := (12, 13, 12)\<rparr>) =
      respawn_position"
    by simp
  show ?thesis
    using run reset low w stay high returns by blast
qed

end
